theory Spec2Isabelle
  imports Complex_Main
begin

section \<open>Data model\<close>

text \<open>
  The embedding follows \<^verbatim>\<open>src/main.py\<close>. A Python float is modelled by the real
  number it denotes. Comparisons of floats are exact. A float operation returns its exact
  result rounded to a float; the diagnosis engine branches on two such differences, so
  its model takes the rounding as a parameter (see there). The product of the probe unit
  and the quotients of the aggregator are written exactly: the properties proved of them
  (the flags, the sign, the zero cases) hold before and after rounding. Timestamps are the
  ISO strings the code stores. A \<^verbatim>\<open>PingResult\<close> is the dataclass of the same name.
\<close>

record PingResult =
  timestamp :: string
  server :: string
  latency :: "real option"
  packet_loss :: bool
  timeout :: bool

text \<open>The dataclass \<^verbatim>\<open>NetworkStats\<close>.\<close>

record NetworkStats =
  total_packets :: nat
  lost_packets :: nat
  packet_loss_rate :: real
  min_latency :: real
  max_latency :: real
  avg_latency :: real
  jitter :: real

text \<open>
  Exceptions of the Python runtime that the modelled code can meet. Every raise of the
  source is a branch of the model that returns the exception as a value.
\<close>

datatype error =
    FileNotFoundError
  | KeyError
  | TypeError
  | ValueError
  | AttributeError
  | DecodeError
  | ZeroDivisionError
  | StatisticsError
  | UnboundLocalError

section \<open>Probe unit: \<^verbatim>\<open>ping_server\<close>\<close>

text \<open>
  What the call \<^verbatim>\<open>ping3.ping(server_ip, timeout=self.timeout)\<close> does is the probe's
  input: it returns a delay in seconds, returns \<^verbatim>\<open>None\<close>, or raises. (The value
  \<^verbatim>\<open>False\<close>, which the library can return for an error, is not \<^verbatim>\<open>None\<close> and multiplies
  to 0: the source treats it as a delay of 0.)
\<close>

datatype ping_reply = Delay real | NoReply | Raised

fun ping_server :: "string \<Rightarrow> string \<Rightarrow> ping_reply \<Rightarrow> PingResult" where
  "ping_server now server_ip NoReply =
     \<lparr>timestamp = now, server = server_ip, latency = None,
      packet_loss = True, timeout = True\<rparr>"
| "ping_server now server_ip (Delay l) =
     \<lparr>timestamp = now, server = server_ip, latency = Some (l * 1000),
      packet_loss = False, timeout = False\<rparr>"
| "ping_server now server_ip Raised =
     \<lparr>timestamp = now, server = server_ip, latency = None,
      packet_loss = True, timeout = True\<rparr>"

section \<open>Diagnosis engine: \<^verbatim>\<open>_analyze_comparison\<close>\<close>

text \<open>
  The recommendation texts of the source are Japanese string literals; each literal is
  one constructor here, in the order in which the source mentions them.
\<close>

datatype advice =
    Valorant_servers_likely_at_fault
  | Try_another_valorant_region
  | Check_riot_status_page
  | General_network_problem_possible
  | Consider_contacting_isp
  | Specific_route_may_have_problem
  | Consider_using_vpn
  | General_network_quality_problem
  | Try_wired_instead_of_wifi
  | Check_other_devices_usage
  | Network_quality_normal
  | Route_to_valorant_has_delay

record Details =
  packet_loss_diff :: real
  latency_diff :: real
  valorant_loss :: real
  reference_loss :: real
  valorant_latency :: real
  reference_latency :: real

record Analysis =
  problem_source :: string
  confidence :: string
  recommendation :: "advice list"
  details :: "Details option"

text \<open>The dictionary \<^verbatim>\<open>analysis\<close> as first built: the placeholders and empty details.\<close>

definition initial_analysis :: Analysis where
  "initial_analysis =
     \<lparr>problem_source = ''unknown'', confidence = ''low'', recommendation = [],
      details = None\<rparr>"

text \<open>
  The chain \<^verbatim>\<open>if loss_diff > 3 ... elif loss_diff < -1 ... else ...\<close> (lines 715 to 750),
  on the \<^verbatim>\<open>loss_diff\<close> computed before it.
\<close>

definition loss_comparison :: "real \<Rightarrow> real \<Rightarrow> real \<Rightarrow> Analysis \<Rightarrow> Analysis" where
  "loss_comparison loss_diff val_loss ref_loss analysis =
     (if loss_diff > 3 then
        (if ref_loss < 1 then
           analysis\<lparr>problem_source := ''valorant_servers'', confidence := ''high'',
             recommendation := recommendation analysis @
               [Valorant_servers_likely_at_fault, Try_another_valorant_region,
                Check_riot_status_page]\<rparr>
         else
           analysis\<lparr>problem_source := ''network_general'', confidence := ''medium'',
             recommendation := recommendation analysis @
               [General_network_problem_possible, Consider_contacting_isp]\<rparr>)
      else if loss_diff < - 1 then
        analysis\<lparr>problem_source := ''network_routing'', confidence := ''medium'',
          recommendation := recommendation analysis @
            [Specific_route_may_have_problem, Consider_using_vpn]\<rparr>
      else
        (if val_loss > 2 then
           analysis\<lparr>problem_source := ''network_general'', confidence := ''high'',
             recommendation := recommendation analysis @
               [General_network_quality_problem, Try_wired_instead_of_wifi,
                Check_other_devices_usage]\<rparr>
         else
           analysis\<lparr>problem_source := ''no_significant_issue'', confidence := ''high'',
             recommendation := recommendation analysis @ [Network_quality_normal]\<rparr>))"

text \<open>
  The block \<^verbatim>\<open>if latency_diff > 20: ...\<close> (lines 753 to 756), on the \<^verbatim>\<open>latency_diff\<close>
  computed before it.
\<close>

definition latency_comparison :: "real \<Rightarrow> Analysis \<Rightarrow> Analysis" where
  "latency_comparison lat_diff analysis =
     (if lat_diff > 20 then
        (let analysis1 = analysis\<lparr>recommendation :=
               recommendation analysis @ [Route_to_valorant_has_delay]\<rparr>
         in if problem_source analysis1 = ''no_significant_issue''
            then analysis1\<lparr>problem_source := ''valorant_latency''\<rparr>
            else analysis1)
      else analysis)"

text \<open>
  \<^verbatim>\<open>_analyze_comparison\<close>. The two differences of lines 712 and 713 are float subtractions:
  each is the exact difference rounded to a float. The rounding \<open>rnd\<close> is a parameter, so
  that every statement below holds for the rounding of the machine; where two floats
  differ by slightly more than 3, the rounded \<^verbatim>\<open>loss_diff\<close> can be 3 and the first branch
  is not taken.
\<close>

definition analyze_comparison ::
  "(real \<Rightarrow> real) \<Rightarrow> real \<Rightarrow> real \<Rightarrow> real \<Rightarrow> real \<Rightarrow> Analysis" where
  "analyze_comparison rnd val_loss ref_loss val_latency ref_latency =
     (let analysis = initial_analysis;
          loss_diff = rnd (val_loss - ref_loss);
          latency_diff = rnd (val_latency - ref_latency);
          analysis = loss_comparison loss_diff val_loss ref_loss analysis;
          analysis = latency_comparison latency_diff analysis
      in analysis\<lparr>details := Some
           \<lparr>packet_loss_diff = loss_diff,
            latency_diff = latency_diff,
            valorant_loss = val_loss, reference_loss = ref_loss,
            valorant_latency = val_latency, reference_latency = ref_latency\<rparr>\<rparr>)"

section \<open>Metrics aggregator: \<^verbatim>\<open>calculate_stats\<close>\<close>

text \<open>
  The functions of Python's \<^verbatim>\<open>statistics\<close> module and the built-ins \<^verbatim>\<open>min\<close>, \<^verbatim>\<open>max\<close>
  and \<^verbatim>\<open>/\<close> raise on the inputs written out here.
\<close>

definition py_div :: "real \<Rightarrow> real \<Rightarrow> error + real" where
  "py_div a b = (if b = 0 then Inl ZeroDivisionError else Inr (a / b))"

definition py_min :: "real list \<Rightarrow> error + real" where
  "py_min xs = (case xs of [] \<Rightarrow> Inl ValueError | x # rest \<Rightarrow> Inr (fold min rest x))"

definition py_max :: "real list \<Rightarrow> error + real" where
  "py_max xs = (case xs of [] \<Rightarrow> Inl ValueError | x # rest \<Rightarrow> Inr (fold max rest x))"

definition mean :: "real list \<Rightarrow> error + real" where
  "mean xs = (if xs = [] then Inl StatisticsError
              else Inr (sum_list xs / real (length xs)))"

definition stdev :: "real list \<Rightarrow> error + real" where
  "stdev xs =
     (if length xs < 2 then Inl StatisticsError
      else (let m = sum_list xs / real (length xs) in
            Inr (sqrt (sum_list (map (\<lambda>x. (x - m)\<^sup>2) xs) / real (length xs - 1)))))"

definition bind_err :: "error + 'a \<Rightarrow> ('a \<Rightarrow> error + 'b) \<Rightarrow> error + 'b" where
  "bind_err r f = (case r of Inl e \<Rightarrow> Inl e | Inr v \<Rightarrow> f v)"

text \<open>The body of the loop of \<^verbatim>\<open>calculate_stats\<close>, for one server.\<close>

definition server_stats :: "PingResult list \<Rightarrow> string \<Rightarrow> error + NetworkStats" where
  "server_stats rs srv =
     (let server_results = filter (\<lambda>r. server r = srv) rs;
          total = length server_results;
          lost = length (filter packet_loss server_results);
          successful_pings = List.map_filter latency server_results
      in
      bind_err (if total > 0
                then bind_err (py_div (real lost) (real total)) (\<lambda>q. Inr (q * 100))
                else Inr 0) (\<lambda>rate.
      bind_err (if successful_pings \<noteq> []
                then bind_err (py_min successful_pings) (\<lambda>mn.
                     bind_err (py_max successful_pings) (\<lambda>mx.
                     bind_err (mean successful_pings) (\<lambda>avg.
                     bind_err (if length successful_pings > 1 then stdev successful_pings
                               else Inr 0) (\<lambda>jit.
                     Inr (mn, mx, avg, jit)))))
                else Inr (0, 0, 0, 0)) (\<lambda>(mn, mx, avg, jit).
      Inr \<lparr>total_packets = total, lost_packets = lost, packet_loss_rate = rate,
           min_latency = mn, max_latency = mx, avg_latency = avg, jitter = jit\<rparr>)))"

text \<open>
  The loop \<^verbatim>\<open>for server in set(result.server for result in self.results)\<close>: the servers are
  visited once each (here in order of first appearance; the dictionary built does not
  depend on the order), and an exception ends the loop.
\<close>

fun stats_loop ::
  "string list \<Rightarrow> PingResult list \<Rightarrow> (string \<rightharpoonup> NetworkStats)
   \<Rightarrow> error + (string \<rightharpoonup> NetworkStats)" where
  "stats_loop [] rs acc = Inr acc"
| "stats_loop (srv # srvs) rs acc =
     (case server_stats rs srv of
        Inl e \<Rightarrow> Inl e
      | Inr st \<Rightarrow> stats_loop srvs rs (acc(srv \<mapsto> st)))"

definition calculate_stats :: "PingResult list \<Rightarrow> error + (string \<rightharpoonup> NetworkStats)" where
  "calculate_stats rs = stats_loop (remdups (map server rs)) rs Map.empty"

section \<open>Session state\<close>

text \<open>
  Values as \<^verbatim>\<open>json.load\<close> returns them: a dictionary is the list of its items, in the
  order of the document (its keys are distinct). The import of a statistics file stores such
  a value in \<^verbatim>\<open>current_region\<close> without looking at its type, so the field holds one.
\<close>

datatype pyval =
    PNone
  | PBool bool
  | PNum real
  | PStr string
  | PList "pyval list"
  | PDict "(string \<times> pyval) list"

text \<open>A \<^verbatim>\<open>datetime\<close> is kept as its ISO text.\<close>

type_synonym datetime = string

text \<open>
  The attributes of \<^verbatim>\<open>VALORANTServerTracker\<close> set by \<^verbatim>\<open>__init__\<close>. The attribute
  \<^verbatim>\<open>timeout\<close> is called \<open>ping_timeout\<close> here, next to the field \<open>timeout\<close> of a result.
\<close>

record Session =
  ping_timeout :: real
  interval :: real
  results :: "PingResult list"
  reference_results :: "PingResult list"
  is_running :: bool
  current_region :: pyval
  start_time :: "datetime option"

definition init_tracker :: "real \<Rightarrow> real \<Rightarrow> Session" where
  "init_tracker t i =
     \<lparr>ping_timeout = t, interval = i, results = [], reference_results = [],
      is_running = False, current_region = PStr ''Tokyo (Japan)'', start_time = None\<rparr>"

definition VALORANT_SERVERS :: "(string \<times> string list) list" where
  "VALORANT_SERVERS =
     [(''Tokyo (Japan)'', [''52.77.252.242'', ''13.230.149.157'']),
      (''Seoul (Korea)'', [''43.201.103.1'', ''13.124.145.30'']),
      (''Sydney (Australia)'', [''13.236.8.0'', ''3.104.90.0'']),
      (''Singapore'', [''18.143.118.0'', ''13.229.188.0'']),
      (''Mumbai (India)'', [''13.234.74.0'', ''3.109.44.0'']),
      (''Hong Kong'', [''18.162.190.0'', ''13.75.118.0'']),
      (''Virginia (US East)'', [''52.70.118.0'', ''3.208.28.0'']),
      (''California (US West)'', [''54.241.191.0'', ''13.57.254.0'']),
      (''London (EU West)'', [''18.130.91.0'', ''3.8.37.0'']),
      (''Frankfurt (EU Central)'', [''18.196.142.0'', ''3.122.224.0''])]"

definition REFERENCE_SERVERS :: "(string \<times> string list) list" where
  "REFERENCE_SERVERS =
     [(''Discord'', [''162.159.130.232'', ''162.159.135.232'']),
      (''YouTube (Google)'', [''8.8.8.8'', ''8.8.4.4'']),
      (''Cloudflare'', [''1.1.1.1'', ''1.0.0.1'']),
      (''Amazon (AWS)'', [''52.95.110.1'', ''54.230.0.1'']),
      (''Microsoft'', [''13.107.42.14'', ''40.76.4.15''])]"

section \<open>Probe scheduler: \<^verbatim>\<open>run_continuous_test\<close> and \<^verbatim>\<open>test_reference_servers\<close>\<close>

text \<open>
  The clock and the network are the scheduler's input. A run is given by its passes through
  the \<^verbatim>\<open>while\<close> loop, one list per pass that the clock allowed; a pass lists, for the
  servers probed in it, the timestamp and what \<^verbatim>\<open>ping3.ping\<close> did. A pass that lists
  fewer probes than there are servers was cut short (the running flag was cleared, or
  \<^verbatim>\<open>KeyboardInterrupt\<close> arrived), and the loop ends there.

  \<open>probe_servers\<close> is the loop \<^verbatim>\<open>for server in servers\<close> of \<^verbatim>\<open>run_continuous_test\<close>; it
  returns the log and whether the pass was completed.
\<close>

fun probe_servers ::
  "string list \<Rightarrow> (string \<times> ping_reply) list \<Rightarrow> PingResult list \<Rightarrow> PingResult list \<times> bool"
where
  "probe_servers [] obs acc = (acc, True)"
| "probe_servers (srv # srvs) [] acc = (acc, False)"
| "probe_servers (srv # srvs) ((now, reply) # obs) acc =
     probe_servers srvs obs (acc @ [ping_server now srv reply])"

fun campaign ::
  "string list \<Rightarrow> (string \<times> ping_reply) list list \<Rightarrow> PingResult list \<Rightarrow> PingResult list"
where
  "campaign servers [] acc = acc"
| "campaign servers (obs # rest) acc =
     (case probe_servers servers obs acc of
        (acc1, True) \<Rightarrow> campaign servers rest acc1
      | (acc1, False) \<Rightarrow> acc1)"

text \<open>
  \<^verbatim>\<open>self.VALORANT_SERVERS[self.current_region]\<close>: a missing key raises \<^verbatim>\<open>KeyError\<close>, a list
  or a dictionary as key raises \<^verbatim>\<open>TypeError\<close> (unhashable).
\<close>

definition lookup_region :: "pyval \<Rightarrow> error + string list" where
  "lookup_region region =
     (case region of
        PStr r \<Rightarrow> (case map_of VALORANT_SERVERS r of
                     None \<Rightarrow> Inl KeyError
                   | Some servers \<Rightarrow> Inr servers)
      | PList _ \<Rightarrow> Inl TypeError
      | PDict _ \<Rightarrow> Inl TypeError
      | _ \<Rightarrow> Inl KeyError)"

text \<open>
  \<^verbatim>\<open>run_continuous_test\<close>, started at \<open>now\<close>. The lookup of the servers comes after the log
  is cleared and before the \<^verbatim>\<open>try\<close>. The \<^verbatim>\<open>finally\<close> block clears the running flag and then
  prints \<^verbatim>\<open>elapsed_time\<close>, a local that only the loop body assigns.
\<close>

definition run_continuous_test ::
  "datetime \<Rightarrow> (string \<times> ping_reply) list list \<Rightarrow> Session \<Rightarrow> Session \<times> error option" where
  "run_continuous_test now rounds s =
     (let s1 = s\<lparr>is_running := True, start_time := Some now, results := []\<rparr> in
      case lookup_region (current_region s1) of
        Inl e \<Rightarrow> (s1, Some e)
      | Inr servers \<Rightarrow>
          (let s2 = s1\<lparr>results := campaign servers rounds (results s1)\<rparr>;
               s3 = s2\<lparr>is_running := False\<rparr>
           in (s3, if rounds = [] then Some UnboundLocalError else None)))"

text \<open>The dictionary \<^verbatim>\<open>test_servers\<close>: the first server of each reference service.\<close>

definition test_servers :: "(string \<times> string) list" where
  "test_servers =
     List.map_filter
       (\<lambda>(service, servers). case servers of [] \<Rightarrow> None | x # _ \<Rightarrow> Some (service, x))
       REFERENCE_SERVERS"

fun probe_services ::
  "(string \<times> string) list \<Rightarrow> (string \<times> ping_reply) list \<Rightarrow> PingResult list
   \<Rightarrow> PingResult list \<times> bool"
where
  "probe_services [] obs acc = (acc, True)"
| "probe_services ((service, srv) # rest) [] acc = (acc, False)"
| "probe_services ((service, srv) # rest) ((now, reply) # obs) acc =
     probe_services rest obs
       (acc @ [(ping_server now srv reply)\<lparr>server := service @ ''|'' @ srv\<rparr>])"

fun reference_campaign ::
  "(string \<times> string) list \<Rightarrow> (string \<times> ping_reply) list list \<Rightarrow> PingResult list
   \<Rightarrow> PingResult list"
where
  "reference_campaign services [] acc = acc"
| "reference_campaign services (obs # rest) acc =
     (case probe_services services obs acc of
        (acc1, True) \<Rightarrow> reference_campaign services rest acc1
      | (acc1, False) \<Rightarrow> acc1)"

definition test_reference_servers ::
  "(string \<times> ping_reply) list list \<Rightarrow> Session \<Rightarrow> Session" where
  "test_reference_servers rounds s =
     (let s1 = s\<lparr>reference_results := []\<rparr>
      in s1\<lparr>reference_results :=
              reference_campaign test_servers rounds (reference_results s1)\<rparr>)"

section \<open>Result store: \<^verbatim>\<open>save_results\<close> and \<^verbatim>\<open>import_results\<close>\<close>

subsection \<open>Strings\<close>

text \<open>
  \<^verbatim>\<open>str.lower\<close>, \<^verbatim>\<open>str.strip\<close>, \<^verbatim>\<open>str.endswith\<close> and the substring test \<^verbatim>\<open>in\<close>, on the
  bytes of a string: letters A to Z are lowered, ASCII white space is stripped. White space
  outside ASCII (such as U+00A0 or U+3000), which \<^verbatim>\<open>str.strip\<close> removes as well, is left in
  place; no property below depends on \<open>py_strip\<close>.
\<close>

definition lower_char :: "char \<Rightarrow> char" where
  "lower_char c =
     (case map_of (zip ''ABCDEFGHIJKLMNOPQRSTUVWXYZ'' ''abcdefghijklmnopqrstuvwxyz'') c of
        None \<Rightarrow> c
      | Some d \<Rightarrow> d)"

definition py_lower :: "string \<Rightarrow> string" where
  "py_lower s = map lower_char s"

definition is_space :: "char \<Rightarrow> bool" where
  "is_space c =
     (c \<in> set [CHR 0x09, CHR 0x0A, CHR 0x0B, CHR 0x0C, CHR 0x0D,
                 CHR 0x1C, CHR 0x1D, CHR 0x1E, CHR 0x1F, CHR '' ''])"

definition py_strip :: "string \<Rightarrow> string" where
  "py_strip s = rev (dropWhile is_space (rev (dropWhile is_space s)))"

definition py_endswith :: "string \<Rightarrow> string \<Rightarrow> bool" where
  "py_endswith s suf =
     (length suf \<le> length s \<and> drop (length s - length suf) s = suf)"

fun py_in_str :: "string \<Rightarrow> string \<Rightarrow> bool" where
  "py_in_str sub [] = (sub = [])"
| "py_in_str sub (c # cs) = (take (length sub) (c # cs) = sub \<or> py_in_str sub cs)"

subsection \<open>The outside world of the store\<close>

text \<open>
  A file is what the two readers make of it: the rows \<^verbatim>\<open>csv.reader\<close> yields (the header
  row first), and the value \<^verbatim>\<open>json.load\<close> returns, or the exception each raises on it.
  The quoting layer of the \<^verbatim>\<open>csv\<close> module is not modelled: a written row is read back as
  the same list of cells.
\<close>

record stored_file =
  csv_rows :: "error + string list list"
  json_value :: "error + pyval"

text \<open>
  What the store takes from outside the repository: the files by name, Python's conversions
  between floats and their text (\<^verbatim>\<open>str\<close> as \<^verbatim>\<open>csv.writer\<close> applies it, \<^verbatim>\<open>float\<close> with its
  \<^verbatim>\<open>ValueError\<close>), \<^verbatim>\<open>datetime.fromisoformat\<close>, and the two answers typed at
  \<^verbatim>\<open>console.input\<close> (the file name, and whether to replace the current data).
\<close>

record World =
  files :: "string \<rightharpoonup> stored_file"
  str_of_float :: "real \<Rightarrow> string"
  float_of_str :: "string \<Rightarrow> error + real"
  fromisoformat :: "string \<Rightarrow> error + datetime"
  answer_filename :: string
  answer_replace :: string

subsection \<open>Export of the tabular log\<close>

definition csv_header :: "string list" where
  "csv_header = [''Timestamp'', ''Server'', ''Latency(ms)'', ''Packet_Loss'', ''Timeout'']"

definition str_of_bool :: "bool \<Rightarrow> string" where
  "str_of_bool b = (if b then ''True'' else ''False'')"

text \<open>
  One call of \<^verbatim>\<open>writer.writerow\<close> in \<^verbatim>\<open>save_results\<close>. The latency cell is
  \<^verbatim>\<open>result.latency if result.latency else 'N/A'\<close>: the test is Python's truth value, which is
  false for \<^verbatim>\<open>None\<close> and for the float 0.
\<close>

definition csv_row :: "World \<Rightarrow> PingResult \<Rightarrow> string list" where
  "csv_row w r =
     [timestamp r, server r,
      (case latency r of
         None \<Rightarrow> ''N/A''
       | Some l \<Rightarrow> if l \<noteq> 0 then str_of_float w l else ''N/A''),
      str_of_bool (packet_loss r), str_of_bool (timeout r)]"

text \<open>
  The CSV file \<^verbatim>\<open>save_results\<close> writes: nothing when the log is empty. (The statistics
  document written next to it is not part of this model.)
\<close>

definition save_results :: "World \<Rightarrow> Session \<Rightarrow> string list list option" where
  "save_results w s =
     (if results s = [] then None
      else Some (csv_header # map (csv_row w) (results s)))"

subsection \<open>Import of the tabular log\<close>

text \<open>
  \<^verbatim>\<open>csv.DictReader\<close>: the first row gives the field names; an empty row is skipped; a row
  shorter than the header has \<^verbatim>\<open>None\<close> for the missing cells; for a repeated field name
  the last cell wins. Cells beyond the header are stored under the key \<^verbatim>\<open>None\<close>, which
  the import never reads.
\<close>

fun pad_zip :: "string list \<Rightarrow> string list \<Rightarrow> (string \<times> string option) list" where
  "pad_zip [] cells = []"
| "pad_zip (f # fs) [] = (f, None) # pad_zip fs []"
| "pad_zip (f # fs) (c # cs) = (f, Some c) # pad_zip fs cs"

definition DictReader :: "string list list \<Rightarrow> (string \<rightharpoonup> string option) list" where
  "DictReader content =
     (case content of
        [] \<Rightarrow> []
      | fieldnames # rows \<Rightarrow>
          map (\<lambda>row. map_of (rev (pad_zip fieldnames row))) (filter (\<lambda>row. row \<noteq> []) rows))"

text \<open>
  The body of the loop \<^verbatim>\<open>for row in reader\<close> of \<^verbatim>\<open>_import_csv_results\<close>, in the source's
  order of evaluation: the latency, the two flags, then the timestamp and the server. A
  missing column is \<^verbatim>\<open>KeyError\<close>; a padded cell is \<^verbatim>\<open>None\<close>, on which \<^verbatim>\<open>float\<close> raises
  \<^verbatim>\<open>TypeError\<close> and \<^verbatim>\<open>.lower()\<close> raises \<^verbatim>\<open>AttributeError\<close>. A padded timestamp or server
  would put \<^verbatim>\<open>None\<close> into a field the dataclass declares \<^verbatim>\<open>str\<close>; the model has no such
  result and reports \<^verbatim>\<open>TypeError\<close> there.
\<close>

definition import_row :: "World \<Rightarrow> (string \<rightharpoonup> string option) \<Rightarrow> error + PingResult" where
  "import_row w row =
     bind_err (case row ''Latency(ms)'' of
                 None \<Rightarrow> Inl KeyError
               | Some cell \<Rightarrow>
                   if cell = Some ''N/A'' then Inr None
                   else (case cell of
                           None \<Rightarrow> Inl TypeError
                         | Some t \<Rightarrow> bind_err (float_of_str w t) (\<lambda>x. Inr (Some x)))) (\<lambda>lat.
     bind_err (case row ''Packet_Loss'' of
                 None \<Rightarrow> Inl KeyError
               | Some None \<Rightarrow> Inl AttributeError
               | Some (Some t) \<Rightarrow> Inr (py_lower t = ''true'')) (\<lambda>loss.
     bind_err (case row ''Timeout'' of
                 None \<Rightarrow> Inl KeyError
               | Some None \<Rightarrow> Inl AttributeError
               | Some (Some t) \<Rightarrow> Inr (py_lower t = ''true'')) (\<lambda>tmo.
     bind_err (case row ''Timestamp'' of
                 None \<Rightarrow> Inl KeyError
               | Some None \<Rightarrow> Inl TypeError
               | Some (Some t) \<Rightarrow> Inr t) (\<lambda>ts.
     bind_err (case row ''Server'' of
                 None \<Rightarrow> Inl KeyError
               | Some None \<Rightarrow> Inl TypeError
               | Some (Some t) \<Rightarrow> Inr t) (\<lambda>srv.
     Inr \<lparr>timestamp = ts, server = srv, latency = lat, packet_loss = loss,
          timeout = tmo\<rparr>)))))"

fun import_rows :: "World \<Rightarrow> (string \<rightharpoonup> string option) list \<Rightarrow> error + PingResult list" where
  "import_rows w [] = Inr []"
| "import_rows w (row # rows) =
     bind_err (import_row w row) (\<lambda>r.
     bind_err (import_rows w rows) (\<lambda>rs. Inr (r # rs)))"

text \<open>\<^verbatim>\<open>_estimate_region_from_servers\<close>: the first region of the table with a server in the log.\<close>

definition estimate_region_from_servers :: "Session \<Rightarrow> Session" where
  "estimate_region_from_servers s =
     (if results s = [] then s
      else (let used_servers = set (map server (results s)) in
            case find (\<lambda>(region, servers). list_ex (\<lambda>srv. srv \<in> used_servers) servers)
                   VALORANT_SERVERS of
              None \<Rightarrow> s
            | Some (region, servers) \<Rightarrow> s\<lparr>current_region := PStr region\<rparr>))"

text \<open>
  \<^verbatim>\<open>_import_csv_results\<close>. The result is the session after the call and the exception that
  left it, if any; without exception the source returns \<^verbatim>\<open>True\<close>.
\<close>

definition import_csv_results :: "World \<Rightarrow> Session \<Rightarrow> string \<Rightarrow> Session \<times> error option" where
  "import_csv_results w s filename =
     (case files w filename of
        None \<Rightarrow> (s, Some FileNotFoundError)
      | Some f \<Rightarrow>
          (case bind_err (csv_rows f) (\<lambda>content. import_rows w (DictReader content)) of
             Inl e \<Rightarrow> (s, Some e)
           | Inr imported_results \<Rightarrow>
               (let s1 =
                  (if results s \<noteq> [] then
                     (if py_lower (py_strip (answer_replace w)) \<noteq> ''y''
                      then s\<lparr>results := results s @ imported_results\<rparr>
                      else s\<lparr>results := imported_results\<rparr>)
                   else s\<lparr>results := imported_results\<rparr>)
                in (estimate_region_from_servers s1, None))))"

subsection \<open>Import of the statistics document\<close>

text \<open>
  The operations of Python on a value read from JSON. \<^verbatim>\<open>key in v\<close> is membership in a
  dictionary's keys or a list's elements, the substring test on a string, and \<^verbatim>\<open>TypeError\<close>
  on anything else; \<^verbatim>\<open>v[key]\<close> with a string key succeeds on a dictionary that has the key.
\<close>

definition py_contains :: "string \<Rightarrow> pyval \<Rightarrow> error + bool" where
  "py_contains key v =
     (case v of
        PDict items \<Rightarrow> Inr (map_of items key \<noteq> None)
      | PList xs \<Rightarrow> Inr (PStr key \<in> set xs)
      | PStr t \<Rightarrow> Inr (py_in_str key t)
      | _ \<Rightarrow> Inl TypeError)"

definition py_getitem :: "pyval \<Rightarrow> string \<Rightarrow> error + pyval" where
  "py_getitem v key =
     (case v of
        PDict items \<Rightarrow> (case map_of items key of None \<Rightarrow> Inl KeyError | Some x \<Rightarrow> Inr x)
      | _ \<Rightarrow> Inl TypeError)"

definition truthy :: "pyval \<Rightarrow> bool" where
  "truthy v =
     (case v of
        PNone \<Rightarrow> False
      | PBool b \<Rightarrow> b
      | PNum x \<Rightarrow> x \<noteq> 0
      | PStr t \<Rightarrow> t \<noteq> []
      | PList xs \<Rightarrow> xs \<noteq> []
      | PDict items \<Rightarrow> items \<noteq> [])"

text \<open>
  The block \<^verbatim>\<open>if 'test_info' in data: ...\<close> of \<^verbatim>\<open>_import_json_stats\<close> (lines 979 to 987),
  in its two steps: \<^verbatim>\<open>if 'region' in test_info: ...\<close> assigns the region as soon as it is
  found; \<^verbatim>\<open>if 'start_time' in test_info and test_info['start_time']: ...\<close> comes after it.
\<close>

definition restore_region :: "pyval \<Rightarrow> Session \<Rightarrow> error + Session" where
  "restore_region test_info s =
     (case py_contains ''region'' test_info of
        Inl e \<Rightarrow> Inl e
      | Inr found \<Rightarrow>
          if found then
            (case py_getitem test_info ''region'' of
               Inl e \<Rightarrow> Inl e
             | Inr region \<Rightarrow> Inr (s\<lparr>current_region := region\<rparr>))
          else Inr s)"

definition restore_start_time :: "World \<Rightarrow> pyval \<Rightarrow> Session \<Rightarrow> Session \<times> error option" where
  "restore_start_time w test_info s =
     (case py_contains ''start_time'' test_info of
        Inl e \<Rightarrow> (s, Some e)
      | Inr found \<Rightarrow>
          if found then
            (case py_getitem test_info ''start_time'' of
               Inl e \<Rightarrow> (s, Some e)
             | Inr t \<Rightarrow>
                 if truthy t then
                   (case t of
                      PStr iso_text \<Rightarrow>
                        (case fromisoformat w iso_text of
                           Inl e \<Rightarrow> (s, Some e)
                         | Inr dt \<Rightarrow> (s\<lparr>start_time := Some dt\<rparr>, None))
                    | _ \<Rightarrow> (s, Some TypeError))
                 else (s, None))
          else (s, None))"

definition restore_test_info :: "World \<Rightarrow> pyval \<Rightarrow> Session \<Rightarrow> Session \<times> error option" where
  "restore_test_info w data s =
     (case py_contains ''test_info'' data of
        Inl e \<Rightarrow> (s, Some e)
      | Inr found \<Rightarrow>
          if found then
            (case py_getitem data ''test_info'' of
               Inl e \<Rightarrow> (s, Some e)
             | Inr test_info \<Rightarrow>
                 (case restore_region test_info s of
                    Inl e \<Rightarrow> (s, Some e)
                  | Inr s1 \<Rightarrow> restore_start_time w test_info s1))
          else (s, None))"

text \<open>
  The table of imported statistics (lines 990 to 1017) changes nothing in the session; what
  matters is where it raises. For each entry it compares \<^verbatim>\<open>packet_loss_rate\<close> and
  \<^verbatim>\<open>avg_latency\<close> with numbers, reads \<^verbatim>\<open>total_packets\<close> and \<^verbatim>\<open>lost_packets\<close>, and formats
  the two rates and \<^verbatim>\<open>jitter\<close> with \<^verbatim>\<open>.1f\<close>.
\<close>

definition is_number :: "pyval \<Rightarrow> bool" where
  "is_number v = (case v of PNum _ \<Rightarrow> True | PBool _ \<Rightarrow> True | _ \<Rightarrow> False)"

definition number_field :: "pyval \<Rightarrow> string \<Rightarrow> error + unit" where
  "number_field stats key =
     bind_err (py_getitem stats key) (\<lambda>v.
       if is_number v then Inr ()
       else (case v of PStr _ \<Rightarrow> Inl ValueError | _ \<Rightarrow> Inl TypeError))"

definition compared_field :: "pyval \<Rightarrow> string \<Rightarrow> error + unit" where
  "compared_field stats key =
     bind_err (py_getitem stats key) (\<lambda>v. if is_number v then Inr () else Inl TypeError)"

definition stats_table_row :: "pyval \<Rightarrow> error + unit" where
  "stats_table_row stats =
     bind_err (compared_field stats ''packet_loss_rate'') (\<lambda>_.
     bind_err (compared_field stats ''avg_latency'') (\<lambda>_.
     bind_err (py_getitem stats ''total_packets'') (\<lambda>_.
     bind_err (py_getitem stats ''lost_packets'') (\<lambda>_.
     number_field stats ''jitter''))))"

fun stats_table_rows :: "(string \<times> pyval) list \<Rightarrow> error option" where
  "stats_table_rows [] = None"
| "stats_table_rows ((srv, stats) # rest) =
     (case stats_table_row stats of
        Inl e \<Rightarrow> Some e
      | Inr _ \<Rightarrow> stats_table_rows rest)"

definition display_server_stats :: "pyval \<Rightarrow> error option" where
  "display_server_stats data =
     (case py_contains ''server_stats'' data of
        Inl e \<Rightarrow> Some e
      | Inr found \<Rightarrow>
          if found then
            (case py_getitem data ''server_stats'' of
               Inl e \<Rightarrow> Some e
             | Inr (PDict items) \<Rightarrow> stats_table_rows items
             | Inr _ \<Rightarrow> Some AttributeError)
          else None)"

text \<open>
  \<^verbatim>\<open>_import_json_stats\<close>: the session after the call and the exception that left it, if any.
  The console is not modelled: a region that \<^verbatim>\<open>console.print\<close> rejects as markup would
  raise there too, again after the region was stored.
\<close>

definition import_json_stats :: "World \<Rightarrow> Session \<Rightarrow> string \<Rightarrow> Session \<times> error option" where
  "import_json_stats w s filename =
     (case files w filename of
        None \<Rightarrow> (s, Some FileNotFoundError)
      | Some f \<Rightarrow>
          (case json_value f of
             Inl e \<Rightarrow> (s, Some e)
           | Inr data \<Rightarrow>
               (case restore_test_info w data s of
                  (s1, Some e) \<Rightarrow> (s1, Some e)
                | (s1, None) \<Rightarrow> (s1, display_server_stats data))))"

text \<open>
  \<^verbatim>\<open>import_results\<close>: the value returned and the session after the call. Both \<^verbatim>\<open>except\<close>
  clauses print a message and return \<^verbatim>\<open>False\<close>; neither restores anything.
\<close>

definition import_results :: "World \<Rightarrow> Session \<Rightarrow> string option \<Rightarrow> bool \<times> Session" where
  "import_results w s filename =
     (let name = (case filename of None \<Rightarrow> py_strip (answer_filename w) | Some n \<Rightarrow> n) in
      if filename = None \<and> name = [] then (False, s)
      else if py_endswith name ''.csv'' then
        (case import_csv_results w s name of
           (s1, None) \<Rightarrow> (True, s1)
         | (s1, Some e) \<Rightarrow> (False, s1))
      else if py_endswith name ''_stats.json'' \<or> py_endswith name ''.json'' then
        (case import_json_stats w s name of
           (s1, None) \<Rightarrow> (True, s1)
         | (s1, Some e) \<Rightarrow> (False, s1))
      else (False, s))"

section \<open>Properties of the diagnosis engine and of the probe unit\<close>

text \<open>
  Claim C1, as the code has it. For every rounding \<open>rnd\<close>, so for the float subtraction
  of the machine, the returned \<^verbatim>\<open>problem_source\<close> and \<^verbatim>\<open>confidence\<close> follow the threshold
  tree on the computed \<^verbatim>\<open>loss_diff\<close>, the rounded difference of the two loss rates: above 3
  the answer is \<^verbatim>\<open>valorant_servers\<close>/high when \<^verbatim>\<open>ref_loss < 1\<close> and
  \<^verbatim>\<open>network_general\<close>/medium otherwise; below -1 it is \<^verbatim>\<open>network_routing\<close>/medium;
  otherwise it is \<^verbatim>\<open>network_general\<close>/high when \<^verbatim>\<open>val_loss > 2\<close>, and when not it is
  \<^verbatim>\<open>no_significant_issue\<close>/high only if the computed \<^verbatim>\<open>latency_diff\<close> is at most 20, and
  \<^verbatim>\<open>valorant_latency\<close>/high if it exceeds 20. The scenario: whenever the rounding is
  monotone and leaves 4 as it is (as rounding to the nearest float does), a target loss of
  8 against a reference loss within 0.01 of 0.2 (the float written 0.2 is one), with
  latencies 40 and 20, gives \<^verbatim>\<open>valorant_servers\<close>/high.
\<close>

theorem analyze_comparison_tree:
  "(problem_source (analyze_comparison rnd val_loss ref_loss val_latency ref_latency),
    confidence (analyze_comparison rnd val_loss ref_loss val_latency ref_latency)) =
   (if rnd (val_loss - ref_loss) > 3 then
      (if ref_loss < 1 then (''valorant_servers'', ''high'')
       else (''network_general'', ''medium''))
    else if rnd (val_loss - ref_loss) < - 1 then (''network_routing'', ''medium'')
    else if val_loss > 2 then (''network_general'', ''high'')
    else if rnd (val_latency - ref_latency) > 20 then (''valorant_latency'', ''high'')
    else (''no_significant_issue'', ''high''))
   \<and> (mono rnd \<and> rnd 4 = 4 \<and> \<bar>r - 2 / 10\<bar> \<le> 1 / 100 \<longrightarrow>
        problem_source (analyze_comparison rnd 8 r 40 20) = ''valorant_servers''
      \<and> confidence (analyze_comparison rnd 8 r 40 20) = ''high'')"
proof
  show "(problem_source (analyze_comparison rnd val_loss ref_loss val_latency ref_latency),
    confidence (analyze_comparison rnd val_loss ref_loss val_latency ref_latency)) =
   (if rnd (val_loss - ref_loss) > 3 then
      (if ref_loss < 1 then (''valorant_servers'', ''high'')
       else (''network_general'', ''medium''))
    else if rnd (val_loss - ref_loss) < - 1 then (''network_routing'', ''medium'')
    else if val_loss > 2 then (''network_general'', ''high'')
    else if rnd (val_latency - ref_latency) > 20 then (''valorant_latency'', ''high'')
    else (''no_significant_issue'', ''high''))"
    by (simp add: analyze_comparison_def loss_comparison_def latency_comparison_def
        initial_analysis_def Let_def)
next
  show "mono rnd \<and> rnd 4 = 4 \<and> \<bar>r - 2 / 10\<bar> \<le> 1 / 100 \<longrightarrow>
        problem_source (analyze_comparison rnd 8 r 40 20) = ''valorant_servers''
      \<and> confidence (analyze_comparison rnd 8 r 40 20) = ''high''"
  proof
    assume h: "mono rnd \<and> rnd 4 = 4 \<and> \<bar>r - 2 / 10\<bar> \<le> 1 / 100"
    then have near: "\<bar>r - 2 / 10\<bar> \<le> 1 / 100" by simp
    have big: "4 \<le> 8 - r" using near by linarith
    have small: "r < 1" using near by linarith
    have m: "mono rnd" using h by simp
    have "rnd 4 \<le> rnd (8 - r)" using monoD [OF m big] .
    then have "rnd (8 - r) > 3" using h by simp
    with small show "problem_source (analyze_comparison rnd 8 r 40 20) = ''valorant_servers''
      \<and> confidence (analyze_comparison rnd 8 r 40 20) = ''high''"
      by (simp add: analyze_comparison_def loss_comparison_def latency_comparison_def
          initial_analysis_def Let_def)
  qed
qed

text \<open>
  Claim C1 at the scenario, with the reference loss 0.2 and a machine that subtracts
  exactly.
\<close>

theorem analyze_comparison_tree_witness:
  "mono (\<lambda>x::real. x) \<and> (\<lambda>x::real. x) 4 = 4 \<and> \<bar>(2::real) / 10 - 2 / 10\<bar> \<le> 1 / 100
   \<and> problem_source (analyze_comparison (\<lambda>x. x) 8 (2 / 10) 40 20) = ''valorant_servers''
   \<and> confidence (analyze_comparison (\<lambda>x. x) 8 (2 / 10) 40 20) = ''high''"
proof -
  have m: "mono (\<lambda>x::real. x)" by (simp add: mono_def)
  show ?thesis
    using m analyze_comparison_tree [where rnd = "\<lambda>x. x" and r = "2 / 10"
        and val_loss = 8 and ref_loss = "2 / 10" and val_latency = 40 and ref_latency = 20]
    by simp
qed

text \<open>
  Claim C1 as stated fails in its last case: with target (1, 50) and reference (0.5, 15)
  no loss threshold is crossed and the target loss is not above 2, yet the function does
  not return \<^verbatim>\<open>no_significant_issue\<close>: the latency block has replaced it. The four values
  and both differences (0.5 and 35) are floats, so the subtraction rounds nothing here.
\<close>

theorem analyze_comparison_no_issue_counterexample:
  "\<not> (1 - 1 / 2 > (3::real)) \<and> \<not> (1 - 1 / 2 < - (1::real)) \<and> \<not> (1 > (2::real))
   \<and> problem_source (analyze_comparison (\<lambda>x. x) 1 (1 / 2) 50 15) \<noteq> ''no_significant_issue''
   \<and> problem_source (analyze_comparison (\<lambda>x. x) 1 (1 / 2) 50 15) = ''valorant_latency''"
  by (simp add: analyze_comparison_def loss_comparison_def latency_comparison_def
      initial_analysis_def Let_def)

text \<open>
  Claim C7. For every rounding \<open>rnd\<close>: whenever the computed \<^verbatim>\<open>latency_diff\<close>, the rounded
  difference of the two latencies, exceeds 20, the latency recommendation is appended to the
  recommendations of the loss classification, and \<^verbatim>\<open>problem_source\<close> becomes
  \<^verbatim>\<open>valorant_latency\<close> exactly when the loss classification was
  \<^verbatim>\<open>no_significant_issue\<close>; every other classification, and the confidence, are returned as
  the loss classification set them.
\<close>

theorem latency_demotion:
  assumes "rnd (val_latency - ref_latency) > 20"
  shows "recommendation (analyze_comparison rnd val_loss ref_loss val_latency ref_latency) =
           recommendation
             (loss_comparison (rnd (val_loss - ref_loss)) val_loss ref_loss initial_analysis)
             @ [Route_to_valorant_has_delay]
    \<and> problem_source (analyze_comparison rnd val_loss ref_loss val_latency ref_latency) =
        (if problem_source
              (loss_comparison (rnd (val_loss - ref_loss)) val_loss ref_loss initial_analysis)
              = ''no_significant_issue''
         then ''valorant_latency''
         else problem_source
              (loss_comparison (rnd (val_loss - ref_loss)) val_loss ref_loss initial_analysis))
    \<and> (problem_source (analyze_comparison rnd val_loss ref_loss val_latency ref_latency)
          = ''valorant_latency''
        \<longleftrightarrow> problem_source
              (loss_comparison (rnd (val_loss - ref_loss)) val_loss ref_loss initial_analysis)
          = ''no_significant_issue'')
    \<and> confidence (analyze_comparison rnd val_loss ref_loss val_latency ref_latency) =
        confidence
          (loss_comparison (rnd (val_loss - ref_loss)) val_loss ref_loss initial_analysis)"
  using assms
  by (simp add: analyze_comparison_def loss_comparison_def latency_comparison_def
      initial_analysis_def Let_def)

text \<open>
  Claim C7 at target (1, 50) against reference (0.5, 15), where the demotion fires, and at
  target (8, 50) against the same reference, where \<^verbatim>\<open>valorant_servers\<close> is kept; all the
  differences are floats, and the subtraction is exact.
\<close>

theorem latency_demotion_witness:
  "(\<lambda>x::real. x) (50 - 15) > 20
   \<and> problem_source (loss_comparison ((\<lambda>x::real. x) (1 - 1 / 2)) 1 (1 / 2) initial_analysis)
       = ''no_significant_issue''
   \<and> problem_source (analyze_comparison (\<lambda>x. x) 1 (1 / 2) 50 15) = ''valorant_latency''
   \<and> recommendation (analyze_comparison (\<lambda>x. x) 1 (1 / 2) 50 15) =
       [Network_quality_normal, Route_to_valorant_has_delay]
   \<and> problem_source (analyze_comparison (\<lambda>x. x) 8 (1 / 2) 50 15) = ''valorant_servers''"
proof -
  have h: "(\<lambda>x::real. x) (50 - 15) > 20" by simp
  have p: "problem_source (loss_comparison ((\<lambda>x::real. x) (1 - 1 / 2)) 1 (1 / 2) initial_analysis)
      = ''no_significant_issue''"
    by (simp add: loss_comparison_def initial_analysis_def)
  have r: "recommendation (loss_comparison ((\<lambda>x::real. x) (1 - 1 / 2)) 1 (1 / 2) initial_analysis)
      = [Network_quality_normal]"
    by (simp add: loss_comparison_def initial_analysis_def)
  have q: "problem_source (loss_comparison ((\<lambda>x::real. x) (8 - 1 / 2)) 8 (1 / 2) initial_analysis)
      = ''valorant_servers''"
    by (simp add: loss_comparison_def initial_analysis_def)
  show ?thesis
    using h p q r
      latency_demotion [where rnd = "\<lambda>x. x" and val_latency = 50 and ref_latency = 15
        and val_loss = 1 and ref_loss = "1 / 2"]
      latency_demotion [where rnd = "\<lambda>x. x" and val_latency = 50 and ref_latency = 15
        and val_loss = 8 and ref_loss = "1 / 2"]
    by simp
qed

text \<open>
  Claim C9. Every result built by \<^verbatim>\<open>ping_server\<close> has \<^verbatim>\<open>timeout\<close> equal to
  \<^verbatim>\<open>packet_loss\<close>: both are true on the \<^verbatim>\<open>None\<close> path and on the exception path, and
  both are false on a reply. So the \<^verbatim>\<open>Timeout\<close> cell of its exported row is the
  \<^verbatim>\<open>Packet_Loss\<close> cell again.
\<close>

theorem ping_server_timeout_eq_packet_loss:
  "timeout (ping_server now server_ip reply) = packet_loss (ping_server now server_ip reply)
   \<and> timeout (ping_server now server_ip NoReply)
   \<and> timeout (ping_server now server_ip Raised)
   \<and> \<not> timeout (ping_server now server_ip (Delay l))
   \<and> csv_row w (ping_server now server_ip reply) ! 4
       = csv_row w (ping_server now server_ip reply) ! 3"
  by (cases reply) (simp_all add: csv_row_def)

text \<open>
  Claim C10. For all four scalars, and whatever the subtraction rounds to, the returned
  \<^verbatim>\<open>problem_source\<close> is one of the five classification codes and \<^verbatim>\<open>confidence\<close> is high
  or medium; the placeholders \<^verbatim>\<open>unknown\<close> and \<^verbatim>\<open>low\<close> never reach the caller.
\<close>

theorem analyze_comparison_range:
  "problem_source (analyze_comparison rnd val_loss ref_loss val_latency ref_latency)
     \<in> {''valorant_servers'', ''network_general'', ''network_routing'',
         ''no_significant_issue'', ''valorant_latency''}
   \<and> confidence (analyze_comparison rnd val_loss ref_loss val_latency ref_latency)
     \<in> {''high'', ''medium''}
   \<and> problem_source (analyze_comparison rnd val_loss ref_loss val_latency ref_latency) \<noteq> ''unknown''
   \<and> confidence (analyze_comparison rnd val_loss ref_loss val_latency ref_latency) \<noteq> ''low''"
  by (simp add: analyze_comparison_def loss_comparison_def latency_comparison_def
      initial_analysis_def Let_def)

text \<open>
  Claim C4 as stated fails: when \<^verbatim>\<open>ping3.ping\<close> reports a delay of literally 0, the
  result carries latency 0, not 1.
\<close>

theorem ping_server_zero_delay_counterexample:
  "latency (ping_server ''2024-01-01T00:00:00'' ''1.1.1.1'' (Delay 0)) = Some 0
   \<and> latency (ping_server ''2024-01-01T00:00:00'' ''1.1.1.1'' (Delay 0)) \<noteq> Some 1"
  by simp

text \<open>
  Claim C4, as the code has it. On a reply the probe returns the delay multiplied by 1000,
  with both flags false; the latency is non-negative whenever the reported delay is, and
  it is 0 exactly when the reported delay is 0 (nothing is clamped).
\<close>

theorem ping_server_success:
  "ping_server now server_ip (Delay l) =
     \<lparr>timestamp = now, server = server_ip, latency = Some (l * 1000),
      packet_loss = False, timeout = False\<rparr>
   \<and> (0 \<le> l \<longrightarrow> (\<exists>ms. latency (ping_server now server_ip (Delay l)) = Some ms \<and> 0 \<le> ms))
   \<and> (latency (ping_server now server_ip (Delay l)) = Some 0 \<longleftrightarrow> l = 0)"
  by simp

text \<open>
  Claim C4 at a reply of 0.02 seconds: the latency is 20 ms.
\<close>

theorem ping_server_success_witness:
  "(0::real) \<le> 1 / 50
   \<and> latency (ping_server ''2024-01-01T00:00:00'' ''1.1.1.1'' (Delay (1 / 50))) = Some 20"
  using ping_server_success [of "''2024-01-01T00:00:00''" "''1.1.1.1''" "1 / 50"]
  by simp

section \<open>Properties of the aggregator\<close>

lemma server_stats_total:
  "\<exists>st. server_stats rs srv = Inr st"
  by (simp add: server_stats_def Let_def bind_err_def py_div_def py_min_def py_max_def
      mean_def stdev_def split: list.splits)

lemma server_stats_no_latency:
  assumes "\<forall>r \<in> set rs. server r = srv \<longrightarrow> latency r = None"
    and "server_stats rs srv = Inr st"
  shows "min_latency st = 0 \<and> max_latency st = 0 \<and> avg_latency st = 0 \<and> jitter st = 0"
proof -
  have "List.map_filter latency (filter (\<lambda>r. server r = srv) rs) = []"
    using assms(1) by (auto simp: List.map_filter_def filter_empty_conv)
  with assms(2) show ?thesis
    by (auto simp: server_stats_def Let_def bind_err_def py_div_def split: if_splits)
qed

lemma server_stats_all_lost:
  assumes "\<forall>r \<in> set rs. server r = srv \<longrightarrow> packet_loss r"
    and "srv \<in> server ` set rs"
    and "server_stats rs srv = Inr st"
  shows "packet_loss_rate st = 100"
proof -
  let ?sr = "filter (\<lambda>r. server r = srv) rs"
  have ne: "?sr \<noteq> []" using assms(2) by (auto simp: filter_empty_conv)
  have all: "filter packet_loss ?sr = ?sr" using assms(1) by (auto intro!: filter_cong)
  have len: "length (filter packet_loss ?sr) = length ?sr"
    by (simp only: all)
  have pos: "0 < length ?sr" using ne by simp
  have "packet_loss_rate st =
          real (length (filter packet_loss ?sr)) / real (length ?sr) * 100"
    using assms(3) pos
    by (auto simp del: filter_filter
        simp: server_stats_def Let_def bind_err_def py_div_def
        split: if_splits sum.splits prod.splits)
  also have "\<dots> = 100" using pos by (simp only: len) simp
  finally show ?thesis .
qed

lemma stats_loop_result:
  "\<exists>m. stats_loop srvs rs acc = Inr m \<and>
     (\<forall>k. m k = (if k \<in> set srvs then
                   (case server_stats rs k of Inr st \<Rightarrow> Some st | Inl e \<Rightarrow> None)
                 else acc k))"
proof (induction srvs arbitrary: acc)
  case Nil
  show ?case by simp
next
  case (Cons srv srvs)
  obtain st where st: "server_stats rs srv = Inr st"
    using server_stats_total by blast
  obtain m where m: "stats_loop srvs rs (acc(srv \<mapsto> st)) = Inr m"
    and mk: "\<And>k. m k = (if k \<in> set srvs then
                   (case server_stats rs k of Inr st \<Rightarrow> Some st | Inl e \<Rightarrow> None)
                 else (acc(srv \<mapsto> st)) k)"
    using Cons.IH [of "acc(srv \<mapsto> st)"] by blast
  show ?case using st m mk by auto
qed


text \<open>
  Claim C8. On an empty log \<^verbatim>\<open>calculate_stats\<close> returns the empty dictionary. On every log
  it returns a dictionary (no exception, so no division by zero) whose keys are the
  servers of the log; a server none of whose results has a latency gets minimum, maximum,
  average and jitter 0, and a server all of whose results are lost gets loss rate 100.
\<close>

theorem calculate_stats_edge_cases:
  "calculate_stats [] = Inr Map.empty
   \<and> (\<exists>m. calculate_stats rs = Inr m \<and> dom m = server ` set rs \<and>
         (\<forall>srv \<in> server ` set rs. \<exists>st. m srv = Some st \<and>
            ((\<forall>r \<in> set rs. server r = srv \<longrightarrow> latency r = None) \<longrightarrow>
               min_latency st = 0 \<and> max_latency st = 0 \<and> avg_latency st = 0 \<and> jitter st = 0) \<and>
            ((\<forall>r \<in> set rs. server r = srv \<longrightarrow> packet_loss r) \<longrightarrow>
               packet_loss_rate st = 100)))"
proof
  show "calculate_stats [] = Inr Map.empty" by (simp add: calculate_stats_def)
next
  obtain m where m: "calculate_stats rs = Inr m"
    and mk: "\<And>k. m k = (if k \<in> set (remdups (map server rs)) then
                   (case server_stats rs k of Inr st \<Rightarrow> Some st | Inl e \<Rightarrow> None)
                 else None)"
    using stats_loop_result [of "remdups (map server rs)" rs Map.empty]
    unfolding calculate_stats_def by auto
  have each: "\<exists>st. m srv = Some st \<and> server_stats rs srv = Inr st"
    if "srv \<in> server ` set rs" for srv
  proof -
    obtain st where "server_stats rs srv = Inr st" using server_stats_total by blast
    then show ?thesis using that by (simp add: mk)
  qed
  have none: "m srv = None" if "srv \<notin> server ` set rs" for srv
    using that by (simp add: mk)
  have d: "dom m = server ` set rs"
  proof
    show "dom m \<subseteq> server ` set rs"
    proof
      fix x assume "x \<in> dom m"
      then show "x \<in> server ` set rs"
        using none [of x] by (cases "x \<in> server ` set rs") auto
    qed
    show "server ` set rs \<subseteq> dom m" using each by (auto simp: dom_def)
  qed
  have "\<forall>srv \<in> server ` set rs. \<exists>st. m srv = Some st \<and>
            ((\<forall>r \<in> set rs. server r = srv \<longrightarrow> latency r = None) \<longrightarrow>
               min_latency st = 0 \<and> max_latency st = 0 \<and> avg_latency st = 0 \<and> jitter st = 0) \<and>
            ((\<forall>r \<in> set rs. server r = srv \<longrightarrow> packet_loss r) \<longrightarrow>
               packet_loss_rate st = 100)"
  proof
    fix srv assume srv: "srv \<in> server ` set rs"
    obtain st where st: "m srv = Some st" "server_stats rs srv = Inr st"
      using each [OF srv] by blast
    show "\<exists>st. m srv = Some st \<and>
            ((\<forall>r \<in> set rs. server r = srv \<longrightarrow> latency r = None) \<longrightarrow>
               min_latency st = 0 \<and> max_latency st = 0 \<and> avg_latency st = 0 \<and> jitter st = 0) \<and>
            ((\<forall>r \<in> set rs. server r = srv \<longrightarrow> packet_loss r) \<longrightarrow>
               packet_loss_rate st = 100)"
      using st server_stats_no_latency [of rs srv st] server_stats_all_lost [of rs srv st] srv
      by blast
  qed
  with m d show "\<exists>m. calculate_stats rs = Inr m \<and> dom m = server ` set rs \<and>
         (\<forall>srv \<in> server ` set rs. \<exists>st. m srv = Some st \<and>
            ((\<forall>r \<in> set rs. server r = srv \<longrightarrow> latency r = None) \<longrightarrow>
               min_latency st = 0 \<and> max_latency st = 0 \<and> avg_latency st = 0 \<and> jitter st = 0) \<and>
            ((\<forall>r \<in> set rs. server r = srv \<longrightarrow> packet_loss r) \<longrightarrow>
               packet_loss_rate st = 100))"
    by blast
qed

text \<open>
  Claim C8 on a log of three probes, where both probes of 1.1.1.1 are lost.
\<close>

theorem calculate_stats_edge_cases_witness:
  "\<exists>m st. calculate_stats
       [ping_server ''2024-01-01T00:00:00'' ''1.1.1.1'' NoReply,
        ping_server ''2024-01-01T00:00:01'' ''8.8.8.8'' (Delay (1 / 50)),
        ping_server ''2024-01-01T00:00:02'' ''1.1.1.1'' Raised] = Inr m
     \<and> m ''1.1.1.1'' = Some st
     \<and> min_latency st = 0 \<and> max_latency st = 0 \<and> avg_latency st = 0 \<and> jitter st = 0
     \<and> packet_loss_rate st = 100"
proof -
  let ?rs = "[ping_server ''2024-01-01T00:00:00'' ''1.1.1.1'' NoReply,
        ping_server ''2024-01-01T00:00:01'' ''8.8.8.8'' (Delay (1 / 50)),
        ping_server ''2024-01-01T00:00:02'' ''1.1.1.1'' Raised]"
  have a: "\<forall>r \<in> set ?rs. server r = ''1.1.1.1'' \<longrightarrow> latency r = None" by simp
  have b: "\<forall>r \<in> set ?rs. server r = ''1.1.1.1'' \<longrightarrow> packet_loss r" by simp
  have c: "''1.1.1.1'' \<in> server ` set ?rs" by simp
  from calculate_stats_edge_cases [of ?rs] obtain m where
    m: "calculate_stats ?rs = Inr m"
    and all: "\<forall>srv \<in> server ` set ?rs. \<exists>st. m srv = Some st \<and>
            ((\<forall>r \<in> set ?rs. server r = srv \<longrightarrow> latency r = None) \<longrightarrow>
               min_latency st = 0 \<and> max_latency st = 0 \<and> avg_latency st = 0 \<and> jitter st = 0) \<and>
            ((\<forall>r \<in> set ?rs. server r = srv \<longrightarrow> packet_loss r) \<longrightarrow>
               packet_loss_rate st = 100)"
    by blast
  from all c obtain st where "m ''1.1.1.1'' = Some st"
    and "(\<forall>r \<in> set ?rs. server r = ''1.1.1.1'' \<longrightarrow> latency r = None) \<longrightarrow>
               min_latency st = 0 \<and> max_latency st = 0 \<and> avg_latency st = 0 \<and> jitter st = 0"
    and "(\<forall>r \<in> set ?rs. server r = ''1.1.1.1'' \<longrightarrow> packet_loss r) \<longrightarrow>
               packet_loss_rate st = 100"
    by blast
  with a b m show ?thesis by blast
qed

section \<open>Properties of the scheduler\<close>

text \<open>
  What a run records. A pass over the servers adds, at the end of the log and in the order
  of the servers, the result of \<^verbatim>\<open>ping_server\<close> for each probe made in it, and is complete when
  every server was probed. A campaign adds the results of its passes in order, up to and
  including the first pass that was cut short. For the reference services the same holds,
  each result carrying the name \<^verbatim>\<open>service|server\<close>.
\<close>

lemma probe_servers_log:
  "probe_servers servers obs acc =
     (acc @ map (\<lambda>(srv, t, reply). ping_server t srv reply) (zip servers obs),
      length servers \<le> length obs)"
proof (induction servers arbitrary: obs acc)
  case Nil
  show ?case by simp
next
  case (Cons srv srvs)
  show ?case
  proof (cases obs)
    case Nil
    then show ?thesis by simp
  next
    case (Cons ob obs')
    obtain t reply where ob: "ob = (t, reply)" by (cases ob)
    show ?thesis
      using Cons.IH [of obs' "acc @ [ping_server t srv reply]"]
      by (simp add: Cons ob)
  qed
qed

lemma campaign_log:
  "campaign servers rounds acc =
     acc @ concat (map (\<lambda>obs. map (\<lambda>(srv, t, reply). ping_server t srv reply) (zip servers obs))
             (take (Suc (length (takeWhile (\<lambda>obs. length servers \<le> length obs) rounds)))
                rounds))"
proof (induction rounds arbitrary: acc)
  case Nil
  show ?case by simp
next
  case (Cons obs rest)
  show ?case
  proof (cases "length servers \<le> length obs")
    case True
    then show ?thesis
      using Cons.IH [of "acc @ map (\<lambda>(srv, t, reply). ping_server t srv reply) (zip servers obs)"]
      by (simp add: probe_servers_log)
  next
    case False
    then show ?thesis by (simp add: probe_servers_log)
  qed
qed

lemma probe_services_log:
  "probe_services services obs acc =
     (acc @ map (\<lambda>((service, srv), t, reply).
                   (ping_server t srv reply)\<lparr>server := service @ ''|'' @ srv\<rparr>)
              (zip services obs),
      length services \<le> length obs)"
proof (induction services arbitrary: obs acc)
  case Nil
  show ?case by simp
next
  case (Cons sv svs)
  obtain service srv where sv: "sv = (service, srv)" by (cases sv)
  show ?case
  proof (cases obs)
    case Nil
    then show ?thesis by (simp add: sv)
  next
    case (Cons ob obs')
    obtain t reply where ob: "ob = (t, reply)" by (cases ob)
    show ?thesis
      using Cons.IH
        [of obs' "acc @ [(ping_server t srv reply)\<lparr>server := service @ ''|'' @ srv\<rparr>]"]
      by (simp add: Cons ob sv)
  qed
qed

lemma reference_campaign_log:
  "reference_campaign services rounds acc =
     acc @ concat (map (\<lambda>obs. map (\<lambda>((service, srv), t, reply).
                            (ping_server t srv reply)\<lparr>server := service @ ''|'' @ srv\<rparr>)
                          (zip services obs))
             (take (Suc (length (takeWhile (\<lambda>obs. length services \<le> length obs) rounds)))
                rounds))"
proof (induction rounds arbitrary: acc)
  case Nil
  show ?case by simp
next
  case (Cons obs rest)
  show ?case
  proof (cases "length services \<le> length obs")
    case True
    then show ?thesis
      using Cons.IH [of "acc @ map (\<lambda>((service, srv), t, reply).
                            (ping_server t srv reply)\<lparr>server := service @ ''|'' @ srv\<rparr>)
                          (zip services obs)"]
      by (simp add: probe_services_log)
  next
    case False
    then show ?thesis by (simp add: probe_services_log)
  qed
qed

text \<open>
  Claim C6, as the code has it. Each scheduler run first empties its own log and then only
  appends. After \<^verbatim>\<open>run_continuous_test\<close> the target log holds exactly the results of the
  probes of this run: for each pass in order, up to and including the first one cut short,
  and for each server probed in it in order, the result \<^verbatim>\<open>ping_server\<close> built from that
  probe (the log is empty when the region lookup raised); nothing from before the run is in
  it, and the reference log is untouched. After \<^verbatim>\<open>test_reference_servers\<close> the reference log
  holds exactly the results of the probes of this run, named \<^verbatim>\<open>service|server\<close>, and the
  target log is untouched. Inside a run every result is added at the end: a campaign
  started from a log returns that log followed by the results of its probes.
\<close>

theorem scheduler_clears_then_appends:
  "results (fst (run_continuous_test now rounds s)) =
     (case lookup_region (current_region s) of
        Inl e \<Rightarrow> []
      | Inr region_servers \<Rightarrow>
          concat (map (\<lambda>obs. map (\<lambda>(srv, t, reply). ping_server t srv reply)
                                (zip region_servers obs))
            (take (Suc (length (takeWhile (\<lambda>obs. length region_servers \<le> length obs) rounds)))
               rounds)))
   \<and> reference_results (fst (run_continuous_test now rounds s)) = reference_results s
   \<and> campaign servers rounds acc =
       acc @ concat (map (\<lambda>obs. map (\<lambda>(srv, t, reply). ping_server t srv reply)
                                   (zip servers obs))
               (take (Suc (length (takeWhile (\<lambda>obs. length servers \<le> length obs) rounds)))
                  rounds))
   \<and> reference_results (test_reference_servers rounds s) =
       concat (map (\<lambda>obs. map (\<lambda>((service, srv), t, reply).
                            (ping_server t srv reply)\<lparr>server := service @ ''|'' @ srv\<rparr>)
                          (zip test_servers obs))
         (take (Suc (length (takeWhile (\<lambda>obs. length test_servers \<le> length obs) rounds)))
            rounds))
   \<and> results (test_reference_servers rounds s) = results s
   \<and> reference_campaign services rounds acc =
       acc @ concat (map (\<lambda>obs. map (\<lambda>((service, srv), t, reply).
                            (ping_server t srv reply)\<lparr>server := service @ ''|'' @ srv\<rparr>)
                          (zip services obs))
               (take (Suc (length (takeWhile (\<lambda>obs. length services \<le> length obs) rounds)))
                  rounds))"
proof -
  have a: "results (fst (run_continuous_test now rounds s)) =
     (case lookup_region (current_region s) of
        Inl e \<Rightarrow> []
      | Inr region_servers \<Rightarrow>
          concat (map (\<lambda>obs. map (\<lambda>(srv, t, reply). ping_server t srv reply)
                                (zip region_servers obs))
            (take (Suc (length (takeWhile (\<lambda>obs. length region_servers \<le> length obs) rounds)))
               rounds)))"
    by (simp add: run_continuous_test_def Let_def campaign_log [where acc = "[]", simplified]
        split: sum.splits)
  have b: "reference_results (fst (run_continuous_test now rounds s)) = reference_results s"
    by (simp add: run_continuous_test_def Let_def split: sum.splits)
  have c: "reference_results (test_reference_servers rounds s) =
       concat (map (\<lambda>obs. map (\<lambda>((service, srv), t, reply).
                            (ping_server t srv reply)\<lparr>server := service @ ''|'' @ srv\<rparr>)
                          (zip test_servers obs))
         (take (Suc (length (takeWhile (\<lambda>obs. length test_servers \<le> length obs) rounds)))
            rounds))"
    using reference_campaign_log [of test_servers rounds "[]"]
    by (simp add: test_reference_servers_def Let_def)
  have d: "results (test_reference_servers rounds s) = results s"
    by (simp add: test_reference_servers_def Let_def)
  show ?thesis
    using a b c d campaign_log [of servers rounds acc]
      reference_campaign_log [of services rounds acc]
    by (simp only: simp_thms)
qed

text \<open>
  Claim C6 as stated fails: a session that holds one result from an earlier run, after a run
  of one pass over the two Tokyo servers, holds the two new results only; the earlier
  result is gone.
\<close>

theorem scheduler_drops_earlier_results_counterexample:
  "results (fst (run_continuous_test ''2024-01-02T09:00:00''
       [[(''2024-01-02T09:00:00'', Delay (1 / 50)), (''2024-01-02T09:00:01'', NoReply)]]
       ((init_tracker 3 1)\<lparr>results :=
           [ping_server ''2024-01-01T09:00:00'' ''52.77.252.242'' NoReply]\<rparr>)))
   = [ping_server ''2024-01-02T09:00:00'' ''52.77.252.242'' (Delay (1 / 50)),
      ping_server ''2024-01-02T09:00:01'' ''13.230.149.157'' NoReply]
   \<and> ping_server ''2024-01-01T09:00:00'' ''52.77.252.242'' NoReply
       \<notin> set (results (fst (run_continuous_test ''2024-01-02T09:00:00''
       [[(''2024-01-02T09:00:00'', Delay (1 / 50)), (''2024-01-02T09:00:01'', NoReply)]]
       ((init_tracker 3 1)\<lparr>results :=
           [ping_server ''2024-01-01T09:00:00'' ''52.77.252.242'' NoReply]\<rparr>))))"
  by (simp add: run_continuous_test_def init_tracker_def lookup_region_def
      VALORANT_SERVERS_def Let_def)

section \<open>Properties of the result store\<close>

text \<open>
  The two texts \<^verbatim>\<open>csv.writer\<close> produces for a flag, lowered.
\<close>

lemma py_lower_flags:
  "py_lower ''True'' = ''true''" "py_lower ''False'' = ''false''"
  by (simp_all add: py_lower_def lower_char_def)

text \<open>
  Where the round trip does hold: a log in which every latency present is non-zero, in a
  world where \<^verbatim>\<open>float\<close> reads back the text \<^verbatim>\<open>str\<close> gives for each of these latencies
  (Python's guarantee for floats) and that text is not \<^verbatim>\<open>N/A\<close>, is reconstructed field
  for field from the file written for it.
\<close>

lemma import_exported_row:
  assumes "\<And>l. latency r = Some l \<Longrightarrow>
             l \<noteq> 0 \<and> float_of_str w (str_of_float w l) = Inr l \<and> str_of_float w l \<noteq> ''N/A''"
  shows "import_row w (map_of (rev (pad_zip csv_header (csv_row w r)))) = Inr r"
proof (cases "latency r")
  case None
  then show ?thesis
    by (cases "packet_loss r"; cases "timeout r")
       (simp_all add: csv_header_def csv_row_def import_row_def bind_err_def str_of_bool_def
          py_lower_flags)
next
  case (Some l)
  with assms have "l \<noteq> 0" "float_of_str w (str_of_float w l) = Inr l"
    "str_of_float w l \<noteq> ''N/A''" by auto
  with Some show ?thesis
    by (cases "packet_loss r"; cases "timeout r")
       (simp_all add: csv_header_def csv_row_def import_row_def bind_err_def str_of_bool_def
          py_lower_flags)
qed

lemma import_exported_rows:
  assumes "\<And>r l. r \<in> set rs \<Longrightarrow> latency r = Some l \<Longrightarrow>
             l \<noteq> 0 \<and> float_of_str w (str_of_float w l) = Inr l \<and> str_of_float w l \<noteq> ''N/A''"
  shows "import_rows w (DictReader (csv_header # map (csv_row w) rs)) = Inr rs"
proof -
  have ne: "filter (\<lambda>row. row \<noteq> []) (map (csv_row w) rs) = map (csv_row w) rs"
    by (induction rs) (simp_all add: csv_row_def)
  have "import_rows w (map (\<lambda>row. map_of (rev (pad_zip csv_header row))) (map (csv_row w) rs))
          = Inr rs"
    using assms
  proof (induction rs)
    case Nil
    show ?case by simp
  next
    case (Cons r rs)
    have "import_row w (map_of (rev (pad_zip csv_header (csv_row w r)))) = Inr r"
      by (rule import_exported_row) (use Cons.prems in auto)
    moreover have "import_rows w
        (map (\<lambda>row. map_of (rev (pad_zip csv_header row))) (map (csv_row w) rs)) = Inr rs"
      by (rule Cons.IH) (use Cons.prems in auto)
    ultimately show ?case by (simp add: bind_err_def)
  qed
  then show ?thesis by (simp add: DictReader_def ne)
qed

text \<open>
  Claim C2 at a log of one successful probe whose delay was reported as 0 and one lost
  probe, in any world: \<^verbatim>\<open>save_results\<close> writes \<^verbatim>\<open>N/A\<close> in the latency cell of both rows, and
  the import of the written file reconstructs the first result with no latency, where the
  original has latency 0. The round trip does not reproduce this log.
\<close>

theorem export_import_zero_latency:
  "save_results w ((init_tracker 3 1)\<lparr>results :=
       [ping_server ''2024-01-01T09:00:00'' ''52.77.252.242'' (Delay 0),
        ping_server ''2024-01-01T09:00:01'' ''13.230.149.157'' NoReply]\<rparr>)
     = Some [csv_header,
             [''2024-01-01T09:00:00'', ''52.77.252.242'', ''N/A'', ''False'', ''False''],
             [''2024-01-01T09:00:01'', ''13.230.149.157'', ''N/A'', ''True'', ''True'']]
   \<and> import_rows w (DictReader [csv_header,
             [''2024-01-01T09:00:00'', ''52.77.252.242'', ''N/A'', ''False'', ''False''],
             [''2024-01-01T09:00:01'', ''13.230.149.157'', ''N/A'', ''True'', ''True'']])
     = Inr [\<lparr>timestamp = ''2024-01-01T09:00:00'', server = ''52.77.252.242'',
             latency = None, packet_loss = False, timeout = False\<rparr>,
            ping_server ''2024-01-01T09:00:01'' ''13.230.149.157'' NoReply]
   \<and> ping_server ''2024-01-01T09:00:00'' ''52.77.252.242'' (Delay 0)
     = \<lparr>timestamp = ''2024-01-01T09:00:00'', server = ''52.77.252.242'',
        latency = Some 0, packet_loss = False, timeout = False\<rparr>"
  by (simp add: save_results_def init_tracker_def csv_row_def str_of_bool_def csv_header_def
      DictReader_def import_row_def bind_err_def py_lower_flags)

text \<open>
  Failing imports that leave the session as it was: a tabular import that raises, an
  unsupported extension, a missing file.
\<close>

lemma import_csv_results_failure:
  "import_csv_results w s name = (s1, Some e) \<Longrightarrow> s1 = s"
  by (auto simp: import_csv_results_def Let_def split: option.splits sum.splits if_splits)

lemma import_results_csv_failure:
  assumes "py_endswith name ''.csv''" and "import_results w s (Some name) = (False, s1)"
  shows "s1 = s"
proof -
  obtain s2 r where r: "import_csv_results w s name = (s2, r)"
    by (cases "import_csv_results w s name")
  show ?thesis
  proof (cases r)
    case None
    then show ?thesis using assms r by (simp add: import_results_def)
  next
    case (Some e)
    then have "s2 = s" using r import_csv_results_failure by blast
    then show ?thesis using assms r Some by (simp add: import_results_def)
  qed
qed

lemma import_results_unsupported:
  assumes "\<not> py_endswith name ''.csv''" and "\<not> py_endswith name ''_stats.json''"
    and "\<not> py_endswith name ''.json''"
  shows "import_results w s (Some name) = (False, s)"
  using assms by (simp add: import_results_def)

lemma import_results_missing_file:
  assumes "files w name = None"
  shows "import_results w s (Some name) = (False, s)"
  using assms
  by (simp add: import_results_def import_csv_results_def import_json_stats_def)

text \<open>
  The import of a statistics document never touches the two logs, whether it succeeds or
  raises.
\<close>

lemma restore_region_keeps_logs:
  "restore_region test_info s = Inr s1 \<Longrightarrow>
     results s1 = results s \<and> reference_results s1 = reference_results s"
  by (auto simp: restore_region_def split: sum.splits if_splits)

lemma restore_start_time_keeps_logs:
  "results (fst (restore_start_time w test_info s)) = results s
   \<and> reference_results (fst (restore_start_time w test_info s)) = reference_results s"
  by (simp add: restore_start_time_def split: sum.split pyval.split)

lemma restore_test_info_keeps_logs:
  "results (fst (restore_test_info w data s)) = results s
   \<and> reference_results (fst (restore_test_info w data s)) = reference_results s"
  using restore_region_keeps_logs restore_start_time_keeps_logs
  by (simp add: restore_test_info_def split: sum.split)

lemma import_json_stats_keeps_logs:
  "results (fst (import_json_stats w s name)) = results s
   \<and> reference_results (fst (import_json_stats w s name)) = reference_results s"
proof (cases "files w name")
  case None
  then show ?thesis by (simp add: import_json_stats_def)
next
  case (Some f)
  show ?thesis
  proof (cases "json_value f")
    case (Inl e)
    then show ?thesis using Some by (simp add: import_json_stats_def)
  next
    case (Inr data)
    obtain s1 r where r: "restore_test_info w data s = (s1, r)"
      by (cases "restore_test_info w data s")
    then have "results s1 = results s \<and> reference_results s1 = reference_results s"
      using restore_test_info_keeps_logs [of w data s] by simp
    then show ?thesis using Some Inr r
      by (cases r) (simp_all add: import_json_stats_def)
  qed
qed

text \<open>
  Claim C3 at a statistics document whose \<^verbatim>\<open>test_info\<close> names the region Seoul and whose
  \<^verbatim>\<open>server_stats\<close> entry lacks \<^verbatim>\<open>packet_loss_rate\<close>, in any world: the import returns
  \<^verbatim>\<open>False\<close> (the table raises \<^verbatim>\<open>KeyError\<close>), and the session it leaves has the region
  Seoul where it had Tokyo before the call.
\<close>

theorem import_json_failure_keeps_region_change:
  "import_results
     (w\<lparr>files := [''run_stats.json'' \<mapsto>
        \<lparr>csv_rows = Inl DecodeError,
         json_value = Inr (PDict
           [(''test_info'', PDict [(''region'', PStr ''Seoul (Korea)'')]),
            (''server_stats'', PDict
               [(''43.201.103.1'', PDict [(''total_packets'', PNum 10)])])])\<rparr>]\<rparr>)
     (init_tracker 3 1) (Some ''run_stats.json'')
   = (False, (init_tracker 3 1)\<lparr>current_region := PStr ''Seoul (Korea)''\<rparr>)
   \<and> current_region (init_tracker 3 1) = PStr ''Tokyo (Japan)''"
  by (simp add: import_results_def py_endswith_def import_json_stats_def
      restore_test_info_def restore_region_def restore_start_time_def
      py_contains_def py_getitem_def display_server_stats_def
      stats_table_row_def compared_field_def bind_err_def init_tracker_def)

text \<open>
  What a row that imports gives: the latency is absent exactly when the latency cell is
  \<^verbatim>\<open>N/A\<close>, the loss flag is set exactly when the loss cell reads true.
\<close>

lemma import_row_fields:
  assumes "import_row w row = Inr r"
  shows "(latency r = None \<longleftrightarrow> row ''Latency(ms)'' = Some (Some ''N/A''))
       \<and> (packet_loss r \<longleftrightarrow> (\<exists>t. row ''Packet_Loss'' = Some (Some t) \<and> py_lower t = ''true''))"
  using assms
  by (auto simp: import_row_def bind_err_def split: option.splits sum.splits if_splits)

text \<open>
  Claim C5, as the code has it. Every result built by \<^verbatim>\<open>ping_server\<close> has \<^verbatim>\<open>packet_loss\<close>
  true exactly when its latency is \<^verbatim>\<open>None\<close>. A result reconstructed by the tabular import
  takes the two fields from two cells read independently: its latency is \<^verbatim>\<open>None\<close> exactly
  when the \<^verbatim>\<open>Latency(ms)\<close> cell is \<^verbatim>\<open>N/A\<close>, and its \<^verbatim>\<open>packet_loss\<close> is true exactly when
  the \<^verbatim>\<open>Packet_Loss\<close> cell lower-cases to \<^verbatim>\<open>true\<close>.
\<close>

theorem packet_loss_iff_no_latency:
  "(packet_loss (ping_server now server_ip reply)
      \<longleftrightarrow> latency (ping_server now server_ip reply) = None)
   \<and> (import_row w row = Inr r \<longrightarrow>
        (latency r = None \<longleftrightarrow> row ''Latency(ms)'' = Some (Some ''N/A''))
      \<and> (packet_loss r
           \<longleftrightarrow> (\<exists>t. row ''Packet_Loss'' = Some (Some t) \<and> py_lower t = ''true'')))"
proof
  show "packet_loss (ping_server now server_ip reply)
      \<longleftrightarrow> latency (ping_server now server_ip reply) = None"
    by (cases reply) simp_all
next
  show "import_row w row = Inr r \<longrightarrow>
        (latency r = None \<longleftrightarrow> row ''Latency(ms)'' = Some (Some ''N/A''))
      \<and> (packet_loss r
           \<longleftrightarrow> (\<exists>t. row ''Packet_Loss'' = Some (Some t) \<and> py_lower t = ''true''))"
    using import_row_fields by blast
qed

text \<open>
  Claim C5 as stated fails for the tabular import: a file whose only row has \<^verbatim>\<open>N/A\<close> as
  latency and \<^verbatim>\<open>False\<close> as loss flag imports without error, and the result has neither a
  latency nor the loss flag.
\<close>

theorem import_row_breaks_invariant_counterexample:
  "import_rows
     \<lparr>files = Map.empty, str_of_float = (\<lambda>x. []), float_of_str = (\<lambda>t. Inl ValueError),
      fromisoformat = (\<lambda>t. Inl ValueError), answer_filename = [], answer_replace = []\<rparr>
     (DictReader [csv_header,
        [''2024-01-01T09:00:00'', ''52.77.252.242'', ''N/A'', ''False'', ''False'']])
   = Inr [\<lparr>timestamp = ''2024-01-01T09:00:00'', server = ''52.77.252.242'',
           latency = None, packet_loss = False, timeout = False\<rparr>]"
  by (simp add: csv_header_def DictReader_def import_row_def bind_err_def py_lower_flags)

text \<open>
  Claim C5 at the exported row of a lost probe: the row imports, the result is the lost
  probe again, with no latency and the loss flag set.
\<close>

theorem packet_loss_iff_no_latency_witness:
  "import_row
     \<lparr>files = Map.empty, str_of_float = (\<lambda>x. []), float_of_str = (\<lambda>t. Inl ValueError),
      fromisoformat = (\<lambda>t. Inl ValueError), answer_filename = [], answer_replace = []\<rparr>
     (map_of (rev (pad_zip csv_header
        [''2024-01-01T09:00:01'', ''13.230.149.157'', ''N/A'', ''True'', ''True''])))
   = Inr (ping_server ''2024-01-01T09:00:01'' ''13.230.149.157'' NoReply)
   \<and> latency (ping_server ''2024-01-01T09:00:01'' ''13.230.149.157'' NoReply) = None
   \<and> packet_loss (ping_server ''2024-01-01T09:00:01'' ''13.230.149.157'' NoReply)"
proof -
  let ?w = "\<lparr>files = Map.empty, str_of_float = (\<lambda>x. []), float_of_str = (\<lambda>t. Inl ValueError),
      fromisoformat = (\<lambda>t. Inl ValueError), answer_filename = [], answer_replace = []\<rparr>"
  let ?row = "map_of (rev (pad_zip csv_header
        [''2024-01-01T09:00:01'', ''13.230.149.157'', ''N/A'', ''True'', ''True'']))"
  let ?r = "ping_server ''2024-01-01T09:00:01'' ''13.230.149.157'' NoReply"
  have imp: "import_row ?w ?row = Inr ?r"
    by (simp add: csv_header_def import_row_def bind_err_def py_lower_flags)
  have cell: "?row ''Latency(ms)'' = Some (Some ''N/A'')"
    by (simp add: csv_header_def)
  show ?thesis
    using imp cell
      packet_loss_iff_no_latency [of "''2024-01-01T09:00:01''" "''13.230.149.157''" NoReply
        ?w ?row ?r]
    by simp
qed

end
